theory Spec2Isabelle
  imports Complex_Main
begin

section \<open>The Ollama conversation agent: data model\<close>

text \<open>
  The development embeds \<open>homeassistant/components/ollama/conversation.py\<close>.
  Python dictionaries with optional keys become records with \<open>option\<close> fields
  (\<open>None\<close> is an absent key), exceptions become values, the history dictionary of the
  entity becomes a map that every operation receives and returns, and the collaborators
  that the module only calls (model server, tool registry, template renderer, clock) are
  fields of an environment record.
\<close>

subsection \<open>JSON-like values\<close>

text \<open>
  Tool arguments, tool results and the wire format of a tool are Python values made of
  dictionaries, lists and scalars. A dictionary keeps insertion order, so it is an
  association list.
\<close>

datatype json =
    JNull
  | JBool bool
  | JInt int
  | JStr string
  | JList "json list"
  | JDict "(string \<times> json) list"

text \<open>\<open>d[k] = v\<close> on a Python dictionary: replace in place, or append a new key.\<close>

fun dict_set :: "(string \<times> json) list \<Rightarrow> string \<Rightarrow> json \<Rightarrow> (string \<times> json) list" where
  "dict_set [] k v = [(k, v)]"
| "dict_set ((k', v') # d) k v = (if k' = k then (k, v) # d else (k', v') # dict_set d k v)"

text \<open>Python truthiness of an optional string and of an optional list.\<close>

definition truthy_str :: "string option \<Rightarrow> bool" where
  "truthy_str s = (case s of None \<Rightarrow> False | Some t \<Rightarrow> t \<noteq> [])"

definition truthy_list :: "'a list option \<Rightarrow> bool" where
  "truthy_list l = (case l of None \<Rightarrow> False | Some xs \<Rightarrow> xs \<noteq> [])"

subsection \<open>Exceptions\<close>

text \<open>
  An exception value carries what the source reads from it: \<open>type(e).__name__\<close>,
  \<open>str(e)\<close>, and which of the classes named in an \<open>except\<close> clause of the module
  it is an instance of. Errors raised by the module's own lookups are separate
  constructors of \<open>py_error\<close>; an exception no handler catches is \<open>Propagated\<close>.
\<close>

datatype exc_base = HomeAssistantError | TemplateError | VolInvalid | RequestError | ResponseError

record exc =
  exc_type_name :: string
  exc_str :: string
  exc_bases :: "exc_base list"

definition isinstance :: "exc \<Rightarrow> exc_base \<Rightarrow> bool" where
  "isinstance e b = (b \<in> set (exc_bases e))"

datatype py_error =
    KeyError string
  | IndexError
  | UnboundLocalError string
  | Propagated exc

subsection \<open>Messages and histories\<close>

record tool_call =
  function_name :: string
  function_arguments :: json

record message =
  role :: string
  content :: "string option"
  tool_calls :: "tool_call list option"

text \<open>
  Modelled from the spec: \<open>models.py\<close> (\<open>MessageRole\<close>, \<open>MessageHistory\<close> and its
  property \<open>num_user_messages\<close>) is not among the sources. The spec gives the roles
  system, user, assistant and tool, a history as a message sequence with a last-activity
  timestamp, and the count of user-role messages as the trigger of trimming. The
  timestamp is a reading of the monotonic clock; it is a real number here, which leaves
  the rounding of floating-point subtraction out of the model.
\<close>

definition SYSTEM :: string where
  "SYSTEM = ''system''"

definition USER :: string where
  "USER = ''user''"

record message_history =
  timestamp :: real
  messages :: "message list"

definition num_user_messages :: "message_history \<Rightarrow> int" where
  "num_user_messages mh = int (length (filter (\<lambda>m. role m = USER) (messages mh)))"

type_synonym history_map = "string \<rightharpoonup> message_history"

subsection \<open>Tools\<close>

text \<open>
  A tool descriptor of the registry. The parameter schema is an opaque value of the
  schema library, so its type is a parameter; so is the custom serializer.
\<close>

record 's tool =
  name :: string
  description :: "string option"
  parameters :: 's

record tool_input =
  tool_name :: string
  tool_args :: json

section \<open>Tool formatter\<close>

text \<open>
  \<open>_format_tool\<close> (lines 42-52). \<open>convert\<close> belongs to \<open>voluptuous_openapi\<close> and is
  a parameter.
\<close>

definition format_tool ::
  "('s \<Rightarrow> 'c option \<Rightarrow> json) \<Rightarrow> 's tool \<Rightarrow> 'c option \<Rightarrow> json" where
  "format_tool convert tool custom_serializer =
     (let tool_spec = [(''name'', JStr (name tool)),
                       (''parameters'', convert (parameters tool) custom_serializer)];
          tool_spec' = (case description tool of
                          None \<Rightarrow> tool_spec
                        | Some d \<Rightarrow> if d \<noteq> [] then dict_set tool_spec ''description'' (JStr d)
                                    else tool_spec)
      in JDict [(''type'', JStr ''function''), (''function'', JDict tool_spec')])"

section \<open>History trimming and pruning\<close>

text \<open>
  The slice \<open>xs[i:]\<close> of Python: a negative index counts from the end, and an index
  outside the list is clamped.
\<close>

definition slice_from :: "'a list \<Rightarrow> int \<Rightarrow> 'a list" where
  "slice_from xs i =
     (let n = int (length xs);
          j = (if i < 0 then max (n + i) 0 else min i n)
      in drop (nat j) xs)"

text \<open>
  \<open>_trim_history\<close> (lines 302-316). The method assigns a new list to the attribute of
  the history object; the model returns the updated history. \<open>messages[0]\<close> raises
  IndexError on an empty list.
\<close>

definition trim_history :: "message_history \<Rightarrow> int \<Rightarrow> py_error + message_history" where
  "trim_history message_history max_messages =
     (if max_messages < 1 then Inr message_history
      else if num_user_messages message_history \<ge> max_messages then
        (let num_keep = 2 * max_messages;
             drop_index = int (length (messages message_history)) - num_keep
         in case messages message_history of
              [] \<Rightarrow> Inl IndexError
            | m0 # _ \<Rightarrow>
                Inr (message_history
                      \<lparr>messages := [m0] @ slice_from (messages message_history) drop_index\<rparr>))
      else Inr message_history)"

text \<open>
  \<open>_prune_old_histories\<close> (lines 293-300). The reading of the monotonic clock and the
  constant \<open>MAX_HISTORY_SECONDS\<close> of \<open>const.py\<close> are parameters.
\<close>

definition prune_old_histories :: "real \<Rightarrow> real \<Rightarrow> history_map \<Rightarrow> history_map" where
  "prune_old_histories now max_history_seconds history =
     (\<lambda>conversation_id.
        case history conversation_id of
          None \<Rightarrow> None
        | Some message_history \<Rightarrow>
            if now - timestamp message_history \<le> max_history_seconds
            then Some message_history else None)"

section \<open>The agent loop\<close>

subsection \<open>Inputs, results and collaborators\<close>

text \<open>
  \<open>ConversationInput\<close> with the fields the turn reads: the text, the optional
  conversation id and the user id of the context (\<open>None\<close> when there is no context or
  no user id). \<open>ConversationResult\<close> holds the intent response, which is either speech or
  an error with its code.
\<close>

record conversation_input =
  user_text :: string
  conversation_id :: "string option"
  context_user_id :: "string option"

datatype intent_response_error_code = UNKNOWN

datatype intent_response =
    Speech string
  | Error intent_response_error_code string

record conversation_result =
  response :: intent_response
  result_conversation_id :: "string option"

text \<open>
  The session of the tool registry (\<open>llm.APIInstance\<close>). A tool call may have effects,
  so its outcome is indexed by the iteration of the loop and by the position of the
  call in the reply: the outcome is the result, or the exception the call raises.
\<close>

record ('s, 'c) api_instance =
  api_prompt :: string
  tools :: "'s tool list"
  custom_serializer :: "'c option"
  async_call_tool :: "nat \<Rightarrow> nat \<Rightarrow> tool_input \<Rightarrow> exc + json"

text \<open>The merged settings of the config entry (\<open>{**entry.data, **entry.options}\<close>).\<close>

record entry_settings =
  CONF_MODEL :: string
  CONF_LLM_HASS_API :: "string option"
  CONF_PROMPT :: "string option"
  CONF_MAX_HISTORY :: "int option"

text \<open>
  Everything the turn reads from outside the module. The constants of \<open>const.py\<close> and
  of \<open>helpers/llm.py\<close> are not among the sources and are fields here. \<open>monotonic k\<close> is
  the \<open>k\<close>-th reading of the clock during the turn; \<open>chat k\<close> answers the \<open>k\<close>-th
  request to the model server, given the model name, the messages and the tool list.
\<close>

record ('s, 'c) environment =
  settings :: entry_settings
  DEFAULT_MAX_HISTORY :: int
  MAX_HISTORY_SECONDS :: real
  BASE_PROMPT :: string
  DEFAULT_INSTRUCTIONS_PROMPT :: string
  ulid_now :: string
  async_get_api :: "string \<Rightarrow> exc + ('s, 'c) api_instance"
  async_get_user :: "string \<Rightarrow> string option option"
  async_render :: "string \<Rightarrow> string option \<Rightarrow> exc + string"
  monotonic :: "nat \<Rightarrow> real"
  chat :: "nat \<Rightarrow> string \<Rightarrow> message list \<Rightarrow> json list option \<Rightarrow> exc + message"
  convert :: "'s \<Rightarrow> 'c option \<Rightarrow> json"
  json_dumps :: "json \<Rightarrow> string"

definition MAX_TOOL_ITERATIONS :: nat where
  "MAX_TOOL_ITERATIONS = 10"

subsection \<open>Tool calls of one reply\<close>

text \<open>\<open>message_convert\<close> (lines 248-254).\<close>

definition message_convert :: "message \<Rightarrow> message" where
  "message_convert response_message =
     (let msg = \<lparr>role = role response_message, content = None, tool_calls = None\<rparr>;
          msg1 = (if truthy_str (content response_message)
                  then msg\<lparr>content := content response_message\<rparr> else msg);
          msg2 = (if truthy_list (tool_calls response_message)
                  then msg1\<lparr>tool_calls := tool_calls response_message\<rparr> else msg1)
      in msg2)"

text \<open>The dictionary built in the handler of lines 276-279.\<close>

definition error_tool_response :: "exc \<Rightarrow> json" where
  "error_tool_response e =
     (let tool_response = [(''error'', JStr (exc_type_name e))]
      in JDict (if exc_str e \<noteq> []
                then dict_set tool_response ''error_text'' (JStr (exc_str e))
                else tool_response))"

definition tool_message :: "string \<Rightarrow> message" where
  "tool_message c = \<lparr>role = ''tool'', content = Some c, tool_calls = None\<rparr>"

text \<open>
  The inner loop over \<open>tool_calls\<close> (lines 265-284), from position \<open>j\<close> of iteration
  \<open>it\<close>. It returns the message list with the tool results appended and, when a tool
  raises an exception the handler does not catch, that exception.
\<close>

fun call_tools ::
  "('s, 'c) environment \<Rightarrow> ('s, 'c) api_instance \<Rightarrow> nat \<Rightarrow> nat \<Rightarrow> tool_call list \<Rightarrow>
   message list \<Rightarrow> py_error option \<times> message list" where
  "call_tools env llm_api it j [] msgs = (None, msgs)"
| "call_tools env llm_api it j (tc # tcs) msgs =
     (let tool_input = \<lparr>tool_name = function_name tc, tool_args = function_arguments tc\<rparr>
      in case async_call_tool llm_api it j tool_input of
           Inr tool_response \<Rightarrow>
             call_tools env llm_api it (Suc j) tcs
               (msgs @ [tool_message (json_dumps env tool_response)])
         | Inl e \<Rightarrow>
             if isinstance e HomeAssistantError \<or> isinstance e VolInvalid
             then call_tools env llm_api it (Suc j) tcs
                    (msgs @ [tool_message (json_dumps env (error_tool_response e))])
             else (Some (Propagated e), msgs))"

subsection \<open>The bounded loop\<close>

text \<open>
  How the loop of lines 224-284 is left: by \<open>break\<close> or by exhausting the range
  (\<open>Finished\<close>, with the last \<open>response_message\<close> if any iteration ran), by the handler
  of a transport error (\<open>ChatFailed\<close>), or by an exception that leaves the function.
\<close>

datatype loop_exit =
    Finished "message option"
  | ChatFailed exc
  | Aborted py_error

text \<open>
  \<open>tool_loop env llm_api tool_specs model n it prev msgs sent\<close> runs the remaining \<open>n\<close>
  iterations, starting with iteration \<open>it\<close>. It returns the exit, the message list of
  the history, and the list of requests made to the model server (each one the copy of
  the messages it was given).
\<close>

fun tool_loop ::
  "('s, 'c) environment \<Rightarrow> ('s, 'c) api_instance option \<Rightarrow> json list option \<Rightarrow> string \<Rightarrow>
   nat \<Rightarrow> nat \<Rightarrow> message option \<Rightarrow> message list \<Rightarrow> message list list \<Rightarrow>
   loop_exit \<times> message list \<times> message list list" where
  "tool_loop env llm_api tool_specs model 0 it prev msgs sent = (Finished prev, msgs, sent)"
| "tool_loop env llm_api tool_specs model (Suc n) it prev msgs sent =
     (case chat env it model msgs tool_specs of
        Inl err \<Rightarrow>
          if isinstance err RequestError \<or> isinstance err ResponseError
          then (ChatFailed err, msgs, sent @ [msgs])
          else (Aborted (Propagated err), msgs, sent @ [msgs])
      | Inr response_message \<Rightarrow>
          (let msgs1 = msgs @ [message_convert response_message];
               sent1 = sent @ [msgs]
           in case tool_calls response_message of
                None \<Rightarrow> (Finished (Some response_message), msgs1, sent1)
              | Some tcs \<Rightarrow>
                  (case llm_api of
                     None \<Rightarrow> (Finished (Some response_message), msgs1, sent1)
                   | Some api \<Rightarrow>
                       if tcs = [] then (Finished (Some response_message), msgs1, sent1)
                       else (case call_tools env api it 0 tcs msgs1 of
                               (Some e, msgs2) \<Rightarrow> (Aborted e, msgs2, sent1)
                             | (None, msgs2) \<Rightarrow>
                                 tool_loop env llm_api tool_specs model n (Suc it)
                                   (Some response_message) msgs2 sent1))))"

subsection \<open>One turn\<close>

text \<open>\<open>str.join\<close>.\<close>

fun join :: "string \<Rightarrow> string list \<Rightarrow> string" where
  "join sep [] = []"
| "join sep [x] = x"
| "join sep (x # y # ys) = x @ sep @ join sep (y # ys)"

text \<open>Line 107: \<open>user_input.conversation_id or ulid.ulid_now()\<close>.\<close>

definition turn_conversation_id :: "('s, 'c) environment \<Rightarrow> conversation_input \<Rightarrow> string" where
  "turn_conversation_id env user_input =
     (case conversation_id user_input of
        None \<Rightarrow> ulid_now env
      | Some c \<Rightarrow> if c \<noteq> [] then c else ulid_now env)"

text \<open>
  Lines 123-142: the session of the tool registry and the formatted tool list, or the
  exception \<open>async_get_api\<close> raises.
\<close>

definition resolve_api ::
  "('s, 'c) environment \<Rightarrow> exc + (('s, 'c) api_instance option \<times> json list option)" where
  "resolve_api env =
     (case CONF_LLM_HASS_API (settings env) of
        None \<Rightarrow> Inr (None, None)
      | Some api_id \<Rightarrow>
          if api_id = [] then Inr (None, None)
          else (case async_get_api env api_id of
                  Inl err \<Rightarrow> Inl err
                | Inr llm_api \<Rightarrow>
                    Inr (Some llm_api,
                         Some (map (\<lambda>tool. format_tool (convert env) tool (custom_serializer llm_api))
                                 (tools llm_api)))))"

text \<open>Lines 144-151: the display name of the caller, best effort.\<close>

definition resolve_user_name :: "('s, 'c) environment \<Rightarrow> conversation_input \<Rightarrow> string option" where
  "resolve_user_name env user_input =
     (case context_user_id user_input of
        None \<Rightarrow> None
      | Some uid \<Rightarrow>
          if uid = [] then None
          else (case async_get_user env uid of None \<Rightarrow> None | Some user_name \<Rightarrow> user_name))"

text \<open>
  Lines 153-203: the history of the conversation with its timestamp set to the clock,
  either found in the map or created from the rendered prompt; or the exception the
  renderer raises.
\<close>

definition resolve_history ::
  "('s, 'c) environment \<Rightarrow> ('s, 'c) api_instance option \<Rightarrow> string option \<Rightarrow> history_map \<Rightarrow>
   string \<Rightarrow> exc + message_history" where
  "resolve_history env llm_api user_name history cid =
     (case history cid of
        None \<Rightarrow>
          (case async_render env
                  (BASE_PROMPT env @
                   (case CONF_PROMPT (settings env) of
                      None \<Rightarrow> DEFAULT_INSTRUCTIONS_PROMPT env
                    | Some p \<Rightarrow> p))
                  user_name of
             Inl err \<Rightarrow> Inl err
           | Inr rendered \<Rightarrow>
               (let prompt_parts = [rendered] @
                      (case llm_api of None \<Rightarrow> [] | Some api \<Rightarrow> [api_prompt api]);
                    prompt = join [CHR 0x0A] prompt_parts
                in Inr \<lparr>timestamp = monotonic env 0,
                        messages = [\<lparr>role = SYSTEM, content = Some prompt, tool_calls = None\<rparr>]\<rparr>))
      | Some message_history \<Rightarrow> Inr (message_history\<lparr>timestamp := monotonic env 0\<rparr>))"

text \<open>
  The state of a turn when the loop starts (after line 215). The history in hand is an
  object shared with the map; pruning may have removed its entry, and then the later
  changes to the object are no longer visible in the map (\<open>turn_attached\<close>).
\<close>

record ('s, 'c) turn =
  turn_id :: string
  turn_llm_api :: "('s, 'c) api_instance option"
  turn_tools :: "json list option"
  turn_history :: message_history
  turn_store :: history_map
  turn_attached :: bool

definition store_view :: "history_map \<Rightarrow> string \<Rightarrow> bool \<Rightarrow> message_history \<Rightarrow> history_map" where
  "store_view history cid attached message_history =
     (if attached then history(cid \<mapsto> message_history) else history)"

text \<open>
  Lines 103-215. An early end of the turn is a result, an error response or a raised
  error, together with the history map at that point.
\<close>

definition prepare_turn ::
  "('s, 'c) environment \<Rightarrow> conversation_input \<Rightarrow> history_map \<Rightarrow>
   ((py_error + conversation_result) \<times> history_map) + ('s, 'c) turn" where
  "prepare_turn env user_input history =
     (let cid = turn_conversation_id env user_input
      in case resolve_api env of
           Inl err \<Rightarrow>
             if isinstance err HomeAssistantError
             then Inl (Inr \<lparr>response = Error UNKNOWN (''Error preparing LLM API: '' @ exc_str err),
                            result_conversation_id = conversation_id user_input\<rparr>, history)
             else Inl (Inl (Propagated err), history)
         | Inr (llm_api, tool_specs) \<Rightarrow>
             (case resolve_history env llm_api (resolve_user_name env user_input) history cid of
                Inl err \<Rightarrow>
                  if isinstance err TemplateError
                  then Inl (Inr \<lparr>response = Error UNKNOWN
                                    (''Sorry, I had a problem generating my prompt: '' @ exc_str err),
                                 result_conversation_id = Some cid\<rparr>, history)
                  else Inl (Inl (Propagated err), history)
              | Inr message_history \<Rightarrow>
                  (let history1 = history(cid \<mapsto> message_history);
                       history2 = prune_old_histories (monotonic env 1) (MAX_HISTORY_SECONDS env)
                                    history1;
                       attached = (history2 cid \<noteq> None);
                       max_messages = (case CONF_MAX_HISTORY (settings env) of
                                         None \<Rightarrow> DEFAULT_MAX_HISTORY env
                                       | Some n \<Rightarrow> n)
                   in case trim_history message_history max_messages of
                        Inl e \<Rightarrow> Inl (Inl e, history2)
                      | Inr trimmed \<Rightarrow>
                          Inr \<lparr>turn_id = cid,
                               turn_llm_api = llm_api,
                               turn_tools = tool_specs,
                               turn_history = trimmed
                                 \<lparr>messages := messages trimmed @
                                    [\<lparr>role = USER, content = Some (user_text user_input),
                                      tool_calls = None\<rparr>]\<rparr>,
                               turn_store = history2,
                               turn_attached = attached\<rparr>)))"

text \<open>Lines 286-291, and the return of the handler of lines 234-242.\<close>

definition finish_turn :: "string \<Rightarrow> loop_exit \<Rightarrow> py_error + conversation_result" where
  "finish_turn cid ex =
     (case ex of
        ChatFailed err \<Rightarrow>
          Inr \<lparr>response = Error UNKNOWN
                  (''Sorry, I had a problem talking to the Ollama server: '' @ exc_str err),
               result_conversation_id = Some cid\<rparr>
      | Aborted e \<Rightarrow> Inl e
      | Finished None \<Rightarrow> Inl (UnboundLocalError ''response_message'')
      | Finished (Some response_message) \<Rightarrow>
          (case content response_message of
             None \<Rightarrow> Inl (KeyError ''content'')
           | Some c \<Rightarrow> Inr \<lparr>response = Speech c, result_conversation_id = Some cid\<rparr>))"

text \<open>
  \<open>async_process\<close> (lines 99-291): the result or the raised error, the history map
  after the turn, and the requests made to the model server.
\<close>

definition async_process ::
  "('s, 'c) environment \<Rightarrow> conversation_input \<Rightarrow> history_map \<Rightarrow>
   (py_error + conversation_result) \<times> history_map \<times> message list list" where
  "async_process env user_input history =
     (case prepare_turn env user_input history of
        Inl (res, history') \<Rightarrow> (res, history', [])
      | Inr t \<Rightarrow>
          (case tool_loop env (turn_llm_api t) (turn_tools t) (CONF_MODEL (settings env))
                  MAX_TOOL_ITERATIONS 0 None (messages (turn_history t)) [] of
             (ex, msgs, sent) \<Rightarrow>
               (finish_turn (turn_id t) ex,
                store_view (turn_store t) (turn_id t) (turn_attached t)
                  ((turn_history t)\<lparr>messages := msgs\<rparr>),
                sent)))"

text \<open>The history map after a sequence of turns, each with its own environment.\<close>

fun run_turns ::
  "(('s, 'c) environment \<times> conversation_input) list \<Rightarrow> history_map \<Rightarrow> history_map" where
  "run_turns [] history = history"
| "run_turns ((env, user_input) # rest) history =
     run_turns rest (fst (snd (async_process env user_input history)))"

text \<open>
  The outcome of the tool call at position \<open>j\<close> of iteration \<open>it\<close> is a result or an
  exception that the handler of line 276 catches.
\<close>

definition tool_outcome_ok :: "('s, 'c) api_instance \<Rightarrow> nat \<Rightarrow> nat \<Rightarrow> tool_call \<Rightarrow> bool" where
  "tool_outcome_ok llm_api it j tc =
     (case async_call_tool llm_api it j
             \<lparr>tool_name = function_name tc, tool_args = function_arguments tc\<rparr> of
        Inr tool_response \<Rightarrow> True
      | Inl e \<Rightarrow> isinstance e HomeAssistantError \<or> isinstance e VolInvalid)"

section \<open>Scenarios\<close>

text \<open>
  Concrete collaborators, on which the theorems below are evaluated. \<open>example_dumps\<close>
  stands in for \<open>json.dumps\<close> and prints a flat dictionary of strings.
\<close>

fun example_dumps :: "json \<Rightarrow> string" where
  "example_dumps (JDict kvs) =
     concat (map (\<lambda>(k, v). k @ ''='' @ (case v of JStr s \<Rightarrow> s | _ \<Rightarrow> ''?'') @ '';'') kvs)"
| "example_dumps _ = ''?''"

definition example_failure :: exc where
  "example_failure = \<lparr>exc_type_name = ''HomeAssistantError'', exc_str = ''API not found'',
                       exc_bases = [HomeAssistantError]\<rparr>"

definition example_invalid :: exc where
  "example_invalid = \<lparr>exc_type_name = ''Invalid'', exc_str = [], exc_bases = [VolInvalid]\<rparr>"

definition example_template_error :: exc where
  "example_template_error = \<lparr>exc_type_name = ''TemplateError'', exc_str = ''bad template'',
                              exc_bases = [TemplateError, HomeAssistantError]\<rparr>"

text \<open>No tool registry; the model server answers every request with plain content.\<close>

definition example_env :: "(nat, unit) environment" where
  "example_env =
     \<lparr>settings = \<lparr>CONF_MODEL = ''llama3'', CONF_LLM_HASS_API = None, CONF_PROMPT = None,
                  CONF_MAX_HISTORY = None\<rparr>,
      DEFAULT_MAX_HISTORY = 20,
      MAX_HISTORY_SECONDS = 3600,
      BASE_PROMPT = ''Base. '',
      DEFAULT_INSTRUCTIONS_PROMPT = ''Be brief.'',
      ulid_now = ''01J0'',
      async_get_api = (\<lambda>api_id. Inl example_failure),
      async_get_user = (\<lambda>uid. None),
      async_render = (\<lambda>template user_name. Inr template),
      monotonic = (\<lambda>k. 100 + real k),
      chat = (\<lambda>k model msgs tool_specs.
                Inr \<lparr>role = ''assistant'', content = Some ''Done.'', tool_calls = None\<rparr>),
      convert = (\<lambda>s c. JInt (int s)),
      json_dumps = example_dumps\<rparr>"

definition example_input :: conversation_input where
  "example_input = \<lparr>user_text = ''turn on the kitchen light'', conversation_id = None,
                     context_user_id = None\<rparr>"

text \<open>
  A registry session whose first tool call of a reply fails with a host error, whose
  second fails with a validation error without text, and whose later calls succeed.
\<close>

definition example_api :: "(nat, unit) api_instance" where
  "example_api =
     \<lparr>api_prompt = ''Use the tools.'',
      tools = [\<lparr>name = ''HassTurnOn'', description = None, parameters = 0\<rparr>],
      custom_serializer = None,
      async_call_tool = (\<lambda>it j tool_input.
         if j = 0 then Inl example_failure
         else if j = 1 then Inl example_invalid
         else Inr (JDict [(''success'', JStr ''yes'')]))\<rparr>"

definition example_call :: tool_call where
  "example_call = \<lparr>function_name = ''HassTurnOn'', function_arguments = JDict []\<rparr>"

text \<open>A reply that only asks for a tool call: it has no \<open>content\<close> key.\<close>

definition example_tool_reply :: message where
  "example_tool_reply = \<lparr>role = ''assistant'', content = None, tool_calls = Some [example_call]\<rparr>"

text \<open>A tool registry is configured and cannot be acquired.\<close>

definition example_env_api_fails :: "(nat, unit) environment" where
  "example_env_api_fails =
     example_env\<lparr>settings := (settings example_env)\<lparr>CONF_LLM_HASS_API := Some ''assist''\<rparr>\<rparr>"

text \<open>A tool registry is acquired and the model server asks for a tool on every request.\<close>

definition example_env_tools :: "(nat, unit) environment" where
  "example_env_tools =
     example_env_api_fails
       \<lparr>async_get_api := (\<lambda>api_id. Inr example_api),
        chat := (\<lambda>k model msgs tool_specs. Inr example_tool_reply)\<rparr>"

text \<open>No tool registry; the reply of the model server has no \<open>content\<close> key.\<close>

definition example_env_no_content :: "(nat, unit) environment" where
  "example_env_no_content =
     example_env\<lparr>chat := (\<lambda>k model msgs tool_specs.
                             Inr \<lparr>role = ''assistant'', content = None, tool_calls = None\<rparr>)\<rparr>"

text \<open>The template renderer fails.\<close>

definition example_env_render_fails :: "(nat, unit) environment" where
  "example_env_render_fails =
     example_env\<lparr>async_render := (\<lambda>template user_name. Inl example_template_error)\<rparr>"

definition example_system :: message where
  "example_system = \<lparr>role = ''system'', content = Some ''Base. Be brief.'', tool_calls = None\<rparr>"

definition example_user :: message where
  "example_user = \<lparr>role = ''user'', content = Some ''turn on the kitchen light'',
                    tool_calls = None\<rparr>"

definition example_assistant :: message where
  "example_assistant = \<lparr>role = ''assistant'', content = Some ''Done.'', tool_calls = None\<rparr>"

text \<open>
  The messages after the system prompt of a conversation with one user turn in which the
  model asked for two tools: five messages, one of them of role user.
\<close>

definition example_tool_turn :: "message list" where
  "example_tool_turn =
     [example_user,
      \<lparr>role = ''assistant'', content = None, tool_calls = Some [example_call, example_call]\<rparr>,
      \<lparr>role = ''tool'', content = Some ''success=yes;'', tool_calls = None\<rparr>,
      \<lparr>role = ''tool'', content = Some ''success=yes;'', tool_calls = None\<rparr>,
      example_assistant]"

definition example_history_1 :: message_history where
  "example_history_1 =
     \<lparr>timestamp = 100, messages = [example_system, example_user, example_assistant]\<rparr>"

definition example_history_2 :: message_history where
  "example_history_2 =
     \<lparr>timestamp = 100,
      messages = [example_system, example_user, example_assistant, example_user,
                  example_assistant]\<rparr>"

lemmas example_defs = example_env_def example_input_def example_api_def example_tool_reply_def
  example_env_api_fails_def example_env_tools_def example_failure_def example_invalid_def
  example_template_error_def example_call_def example_env_no_content_def
  example_env_render_fails_def example_system_def example_user_def example_assistant_def
  example_tool_turn_def example_history_1_def example_history_2_def

lemmas turn_defs = async_process_def prepare_turn_def resolve_api_def resolve_history_def
  resolve_user_name_def turn_conversation_id_def trim_history_def num_user_messages_def
  prune_old_histories_def store_view_def finish_turn_def message_convert_def
  truthy_str_def truthy_list_def isinstance_def MAX_TOOL_ITERATIONS_def SYSTEM_def USER_def
  format_tool_def Let_def tool_message_def error_tool_response_def slice_from_def
  tool_outcome_ok_def

section \<open>Properties of the tool formatter\<close>

text \<open>
  Claim C10. For every tool descriptor, \<open>_format_tool\<close> returns exactly the dictionary
  with \<open>type\<close> equal to \<open>function\<close> and \<open>function\<close> holding the name and the
  converted parameters, in this order. The key \<open>description\<close> is absent when the
  descriptor has no description (the test of line 50 is Python truthiness, so \<open>None\<close>
  and the empty string both count as no description), and holds the description
  verbatim, after the other two keys, when the descriptor has one. The result is a
  function of the descriptor, the serializer and \<open>convert\<close> alone.
\<close>

theorem format_tool_shape:
  "((description t = None \<or> description t = Some []) \<longrightarrow>
      format_tool cv t cs =
        JDict [(''type'', JStr ''function''),
               (''function'', JDict [(''name'', JStr (name t)),
                                     (''parameters'', cv (parameters t) cs)])])
   \<and> (\<forall>d. description t = Some d \<and> d \<noteq> [] \<longrightarrow>
      format_tool cv t cs =
        JDict [(''type'', JStr ''function''),
               (''function'', JDict [(''name'', JStr (name t)),
                                     (''parameters'', cv (parameters t) cs),
                                     (''description'', JStr d)])])"
  by (auto simp: format_tool_def)

theorem format_tool_shape_witness:
  "format_tool (\<lambda>s c. JInt s) \<lparr>name = ''HassTurnOn'', description = None, parameters = 7\<rparr>
       (None :: unit option)
     = JDict [(''type'', JStr ''function''),
              (''function'', JDict [(''name'', JStr ''HassTurnOn''), (''parameters'', JInt 7)])]
   \<and> format_tool (\<lambda>s c. JInt s)
       \<lparr>name = ''HassTurnOn'', description = Some ''Turns on a device'', parameters = 7\<rparr>
       (None :: unit option)
     = JDict [(''type'', JStr ''function''),
              (''function'', JDict [(''name'', JStr ''HassTurnOn''), (''parameters'', JInt 7),
                                    (''description'', JStr ''Turns on a device'')])]"
  using format_tool_shape
          [of "\<lparr>name = ''HassTurnOn'', description = None, parameters = 7\<rparr>"
              "\<lambda>s c. JInt s" "None :: unit option"]
        format_tool_shape
          [of "\<lparr>name = ''HassTurnOn'', description = Some ''Turns on a device'', parameters = 7\<rparr>"
              "\<lambda>s c. JInt s" "None :: unit option"]
  by simp

section \<open>Properties of pruning and trimming\<close>

text \<open>
  Claim C6. Pruning removes the entry of a conversation if and only if the clock
  reading minus the timestamp of the entry is strictly greater than the time to live.
  An entry whose age equals the time to live is retained, and a retained entry is the
  entry that was stored, messages included.
\<close>

theorem prune_removes_iff_older_than_ttl:
  "history cid = Some mh \<Longrightarrow>
     (prune_old_histories now ttl history cid = None \<longleftrightarrow> now - timestamp mh > ttl)
   \<and> (now - timestamp mh = ttl \<longrightarrow> prune_old_histories now ttl history cid = Some mh)
   \<and> (prune_old_histories now ttl history cid \<noteq> None \<longrightarrow>
        prune_old_histories now ttl history cid = Some mh)"
  by (auto simp: prune_old_histories_def)

theorem prune_removes_iff_older_than_ttl_witness:
  "[''01J0'' \<mapsto> example_history_1] ''01J0'' = Some example_history_1
   \<and> 3700 - timestamp example_history_1 = 3600
   \<and> prune_old_histories 3700 3600 [''01J0'' \<mapsto> example_history_1] ''01J0''
       = Some example_history_1
   \<and> 3701 - timestamp example_history_1 > 3600
   \<and> prune_old_histories 3701 3600 [''01J0'' \<mapsto> example_history_1] ''01J0'' = None"
  using prune_removes_iff_older_than_ttl
          [of "[''01J0'' \<mapsto> example_history_1]" "''01J0''" example_history_1 3700 3600]
        prune_removes_iff_older_than_ttl
          [of "[''01J0'' \<mapsto> example_history_1]" "''01J0''" example_history_1 3701 3600]
  by (simp add: example_history_1_def)

lemma slice_from_nonneg: "0 \<le> i \<Longrightarrow> slice_from xs i = drop (nat i) xs"
  by (auto simp: slice_from_def Let_def min_def)

lemma trim_history_total: "\<exists>mh'. trim_history mh n = Inr mh'"
proof (cases "messages mh")
  case Nil
  then show ?thesis by (simp add: trim_history_def num_user_messages_def)
next
  case (Cons m ms)
  then show ?thesis by (simp add: trim_history_def Let_def)
qed

lemma trim_history_head:
  assumes "trim_history mh n = Inr mh'" "messages mh = sys # rest"
  shows "\<exists>rest'. messages mh' = sys # rest'"
  using assms by (auto simp: trim_history_def Let_def split: if_splits)

lemma prune_subset:
  "prune_old_histories now ttl h k = Some mh \<Longrightarrow> h k = Some mh"
  by (auto simp: prune_old_histories_def split: option.splits if_splits)

text \<open>
  Claim C2, as stated, fails: trimming is guarded by the count of user-role messages
  (line 308), not by the length of the history. A conversation with one user turn in
  which the model asked for two tools has five messages after the system prompt, that
  is \<open>2 * 2 + 1\<close>, but only one user message, so trimming with limit 2 leaves all
  five in place.
\<close>

theorem trim_below_user_count_counterexample:
  "int (length example_tool_turn) = 2 * 2 + 1
   \<and> trim_history \<lparr>timestamp = 0, messages = example_system # example_tool_turn\<rparr> 2
       = Inr \<lparr>timestamp = 0, messages = example_system # example_tool_turn\<rparr>
   \<and> trim_history \<lparr>timestamp = 0, messages = example_system # example_tool_turn\<rparr> 2
       \<noteq> Inr \<lparr>timestamp = 0, messages = example_system # drop 1 example_tool_turn\<rparr>"
  by (simp add: trim_history_def num_user_messages_def USER_def example_defs)

text \<open>
  Claim C2, amended. For every limit \<open>N \<ge> 1\<close> and every history that is a first
  message followed by \<open>2N + k\<close> further messages, of which at least \<open>N\<close> have role
  user (or with \<open>k = 0\<close>), trimming yields the first message followed by the last
  \<open>2N\<close> messages. For every limit below 1 trimming returns the history as it is.
\<close>

theorem trim_keeps_last:
  "(1 \<le> N \<and> messages mh = sys # rest \<and> int (length rest) = 2 * N + int k \<and>
      (N \<le> num_user_messages mh \<or> k = 0) \<longrightarrow>
        trim_history mh N = Inr (mh\<lparr>messages := sys # drop k rest\<rparr>))
   \<and> (N' < 1 \<longrightarrow> trim_history mh N' = Inr mh)"
proof (intro conjI impI)
  assume h: "1 \<le> N \<and> messages mh = sys # rest \<and> int (length rest) = 2 * N + int k \<and>
      (N \<le> num_user_messages mh \<or> k = 0)"
  show "trim_history mh N = Inr (mh\<lparr>messages := sys # drop k rest\<rparr>)"
  proof (cases "N \<le> num_user_messages mh")
    case True
    with h show ?thesis
      by (auto simp: trim_history_def Let_def slice_from_nonneg nat_add_distrib)
  next
    case False
    with h have k: "k = 0" by simp
    from h have "mh\<lparr>messages := sys # rest\<rparr> = mh" by simp
    with False h k show ?thesis by (simp add: trim_history_def)
  qed
next
  assume "N' < 1"
  then show "trim_history mh N' = Inr mh" by (simp add: trim_history_def)
qed

theorem trim_keeps_last_witness:
  "(1::int) \<le> 1
   \<and> messages example_history_2
       = example_system # [example_user, example_assistant, example_user, example_assistant]
   \<and> int (length [example_user, example_assistant, example_user, example_assistant])
       = 2 * 1 + int 2
   \<and> 1 \<le> num_user_messages example_history_2
   \<and> trim_history example_history_2 1
       = Inr \<lparr>timestamp = 100, messages = [example_system, example_user, example_assistant]\<rparr>
   \<and> (0::int) < 1
   \<and> trim_history example_history_2 0 = Inr example_history_2"
  using trim_keeps_last
          [of 1 example_history_2 example_system
              "[example_user, example_assistant, example_user, example_assistant]" 2 0]
  by (simp add: example_defs num_user_messages_def USER_def)

text \<open>
  Claim C3. For every limit \<open>N \<ge> 1\<close> and every history whose message list has
  exactly \<open>2N\<close> elements, at least \<open>N\<close> of them of role user, trimming makes the
  list one longer: the drop index is 0, the slice is the whole list, and the former
  first element stands at index 0 and at index 1 of the result.
\<close>

theorem trim_duplicates_system_prompt:
  assumes "1 \<le> N" "int (length (messages mh)) = 2 * N" "N \<le> num_user_messages mh"
  shows "\<exists>mh'. trim_history mh N = Inr mh'
           \<and> mh' = mh\<lparr>messages := (messages mh ! 0) # messages mh\<rparr>
           \<and> length (messages mh') = length (messages mh) + 1
           \<and> messages mh' ! 0 = messages mh ! 0
           \<and> messages mh' ! 1 = messages mh ! 0"
  using assms by (cases "messages mh") (auto simp: trim_history_def Let_def slice_from_def)

theorem trim_duplicates_system_prompt_witness:
  "(1::int) \<le> 1
   \<and> int (length (messages \<lparr>timestamp = 0, messages = [example_system, example_user]\<rparr>)) = 2 * 1
   \<and> 1 \<le> num_user_messages \<lparr>timestamp = 0, messages = [example_system, example_user]\<rparr>
   \<and> trim_history \<lparr>timestamp = 0, messages = [example_system, example_user]\<rparr> 1
       = Inr \<lparr>timestamp = 0, messages = [example_system, example_system, example_user]\<rparr>"
  using trim_duplicates_system_prompt
          [of 1 "\<lparr>timestamp = 0, messages = [example_system, example_user]\<rparr>"]
  by (simp add: example_defs num_user_messages_def USER_def)

section \<open>Properties of tool execution\<close>

lemma call_tools_no_abort:
  "(\<forall>i < length tcs. tool_outcome_ok api it (j + i) (tcs ! i)) \<Longrightarrow>
     \<exists>new. call_tools env api it j tcs msgs = (None, msgs @ new) \<and> length new = length tcs
           \<and> (\<forall>m \<in> set new. role m = ''tool'')"
proof (induction tcs arbitrary: j msgs)
  case Nil
  then show ?case by simp
next
  case (Cons tc tcs)
  have hd_ok: "tool_outcome_ok api it j tc" using Cons.prems by force
  have tl_ok: "\<forall>i < length tcs. tool_outcome_ok api it (Suc j + i) (tcs ! i)"
    using Cons.prems by force
  from hd_ok obtain c where
    step: "call_tools env api it j (tc # tcs) msgs =
           call_tools env api it (Suc j) tcs (msgs @ [tool_message c])"
    by (auto simp: tool_outcome_ok_def Let_def split: sum.splits)
  from Cons.IH [OF tl_ok, of "msgs @ [tool_message c]"] obtain new where
    "call_tools env api it (Suc j) tcs (msgs @ [tool_message c]) =
       (None, (msgs @ [tool_message c]) @ new)"
    "length new = length tcs" "\<forall>m \<in> set new. role m = ''tool''" by blast
  then show ?case using step
    by (intro exI [of _ "tool_message c # new"]) (simp add: tool_message_def)
qed

lemma call_tools_prefix:
  "call_tools env api it j tcs msgs = (r, msgs') \<Longrightarrow> \<exists>ext. msgs' = msgs @ ext"
proof (induction tcs arbitrary: j msgs)
  case Nil
  then show ?case by simp
next
  case (Cons tc tcs)
  then show ?case
    by (fastforce simp: Let_def split: sum.splits if_splits)
qed

lemma tool_reply_continues:
  assumes "chat env it model msgs tool_specs = Inr rm" "tool_calls rm = Some tcs" "tcs \<noteq> []"
      and ok: "\<forall>i < length tcs. tool_outcome_ok api it i (tcs ! i)"
  shows "\<exists>new. length new = length tcs \<and> (\<forall>m \<in> set new. role m = ''tool'') \<and>
           tool_loop env (Some api) tool_specs model (Suc n) it prev msgs sent =
           tool_loop env (Some api) tool_specs model n (Suc it) (Some rm)
             (msgs @ [message_convert rm] @ new) (sent @ [msgs])"
proof -
  from ok have "\<forall>i < length tcs. tool_outcome_ok api it (0 + i) (tcs ! i)" by simp
  from call_tools_no_abort [OF this, of env "msgs @ [message_convert rm]"]
  obtain new where new:
    "call_tools env api it 0 tcs (msgs @ [message_convert rm]) =
       (None, (msgs @ [message_convert rm]) @ new)"
    "length new = length tcs" "\<forall>m \<in> set new. role m = ''tool''" by blast
  with assms(1-3) show ?thesis
    by (intro exI [of _ new]) (simp add: Let_def)
qed



section \<open>Properties of a turn\<close>

lemma tool_loop_prefix:
  "tool_loop env api ts model n it prev msgs sent = (ex, msgs', sent') \<Longrightarrow>
     \<exists>ext. msgs' = msgs @ ext"
proof (induction n arbitrary: it prev msgs sent)
  case 0
  then show ?case by simp
next
  case (Suc n)
  show ?case
  proof (cases "chat env it model msgs ts")
    case (Inl err)
    with Suc.prems show ?thesis by (auto split: if_splits)
  next
    case (Inr rm)
    show ?thesis
    proof (cases "\<exists>a tcs. api = Some a \<and> tool_calls rm = Some tcs \<and> tcs \<noteq> []")
      case False
      with Suc.prems Inr show ?thesis
        by (auto simp: Let_def split: option.splits if_splits)
    next
      case True
      then obtain a tcs where a: "api = Some a" "tool_calls rm = Some tcs" "tcs \<noteq> []"
        by blast
      obtain r m2 where ct: "call_tools env a it 0 tcs (msgs @ [message_convert rm]) = (r, m2)"
        by (cases "call_tools env a it 0 tcs (msgs @ [message_convert rm])") auto
      from call_tools_prefix [OF ct] obtain e1 where
        m2: "m2 = (msgs @ [message_convert rm]) @ e1" by blast
      show ?thesis
      proof (cases r)
        case None
        with Suc.prems Inr a ct have
          "tool_loop env api ts model n (Suc it) (Some rm) m2 (sent @ [msgs]) = (ex, msgs', sent')"
          by (simp add: Let_def)
        from Suc.IH [OF this] m2 show ?thesis by auto
      next
        case (Some e)
        with Suc.prems Inr a ct m2 show ?thesis by (auto simp: Let_def)
      qed
    qed
  qed
qed

text \<open>
  When every reply asks for tools and every tool call ends in a result or a caught
  failure, the loop makes one request per iteration and ends with the reply to the
  last request.
\<close>

lemma tool_loop_runs_all_iterations:
  assumes replies: "\<And>i ms. \<exists>rm tcs. chat env i model ms tool_specs = Inr rm \<and>
                      tool_calls rm = Some tcs \<and> tcs \<noteq> [] \<and>
                      (\<forall>k < length tcs. tool_outcome_ok api i k (tcs ! k))"
  shows "\<exists>fin msgs' sent'.
           tool_loop env (Some api) tool_specs model n it prev msgs sent
             = (Finished fin, msgs', sent') \<and>
           length sent' = length sent + n \<and>
           (0 < n \<longrightarrow> (\<exists>rm. fin = Some rm \<and>
                         chat env (it + n - 1) model (last sent') tool_specs = Inr rm))"
proof (induction n arbitrary: it prev msgs sent)
  case 0
  show ?case by simp
next
  case (Suc n)
  from replies [of it msgs] obtain rm tcs where
    r: "chat env it model msgs tool_specs = Inr rm" "tool_calls rm = Some tcs" "tcs \<noteq> []"
       "\<forall>k < length tcs. tool_outcome_ok api it k (tcs ! k)" by blast
  from tool_reply_continues [OF r, of n prev sent] obtain new where
    step: "tool_loop env (Some api) tool_specs model (Suc n) it prev msgs sent =
           tool_loop env (Some api) tool_specs model n (Suc it) (Some rm)
             (msgs @ [message_convert rm] @ new) (sent @ [msgs])" by blast
  from Suc.IH [of "Suc it" "Some rm" "msgs @ [message_convert rm] @ new" "sent @ [msgs]"]
  obtain fin msgs' sent' where
    ih: "tool_loop env (Some api) tool_specs model n (Suc it) (Some rm)
           (msgs @ [message_convert rm] @ new) (sent @ [msgs]) = (Finished fin, msgs', sent')"
        "length sent' = length (sent @ [msgs]) + n"
        "0 < n \<longrightarrow> (\<exists>rm'. fin = Some rm' \<and>
                       chat env (Suc it + n - 1) model (last sent') tool_specs = Inr rm')"
    by blast
  show ?case
  proof (cases n)
    case 0
    with ih(1) have "fin = Some rm" "sent' = sent @ [msgs]" by simp_all
    with step ih(1,2) r(1) 0 show ?thesis by simp
  next
    case (Suc m)
    with step ih show ?thesis by simp
  qed
qed

lemma resolve_history_cases:
  assumes "resolve_history env api u h cid = Inr mh0"
  shows "(h cid = None \<and>
          (\<exists>p. messages mh0 = [\<lparr>role = SYSTEM, content = Some p, tool_calls = None\<rparr>]))
       \<or> (\<exists>mh. h cid = Some mh \<and> messages mh0 = messages mh)"
  using assms by (auto simp: resolve_history_def Let_def split: option.splits sum.splits)

lemma prepare_turn_early_store:
  assumes "prepare_turn env inp h = Inl (res, h')" "h' k = Some mh'"
  shows "h k = Some mh'
       \<or> (k = turn_conversation_id env inp \<and>
          (\<exists>api mh0. resolve_history env api (resolve_user_name env inp) h k = Inr mh0 \<and>
                     mh' = mh0))"
  using assms
  by (auto simp: prepare_turn_def Let_def split: sum.splits if_splits prod.splits
           dest!: prune_subset)

lemma prepare_turn_state:
  assumes "prepare_turn env inp h = Inr t"
  shows "turn_id t = turn_conversation_id env inp
       \<and> (\<exists>api mh0 trimmed n.
             resolve_history env api (resolve_user_name env inp) h (turn_id t) = Inr mh0
             \<and> trim_history mh0 n = Inr trimmed
             \<and> messages (turn_history t) =
                 messages trimmed @
                 [\<lparr>role = USER, content = Some (user_text inp), tool_calls = None\<rparr>]
             \<and> turn_store t =
                 prune_old_histories (monotonic env 1) (MAX_HISTORY_SECONDS env)
                   (h(turn_id t \<mapsto> mh0)))"
  using assms
  by (fastforce simp: prepare_turn_def Let_def split: sum.splits if_splits prod.splits)

lemma async_process_store:
  assumes "fst (snd (async_process env inp h)) k = Some mh'"
  shows "h k = Some mh'
       \<or> (k = turn_conversation_id env inp \<and>
          (\<exists>api mh0. resolve_history env api (resolve_user_name env inp) h k = Inr mh0 \<and>
             (\<forall>sys rest. messages mh0 = sys # rest \<longrightarrow>
                (\<exists>rest'. messages mh' = sys # rest'))))"
proof (cases "prepare_turn env inp h")
  case (Inl early)
  obtain res h' where early: "early = (res, h')" by (cases early)
  with Inl assms have "h' k = Some mh'" by (simp add: async_process_def)
  from prepare_turn_early_store [OF Inl [unfolded early] this] show ?thesis by auto
next
  case (Inr t)
  obtain ex msgs sent where loop:
    "tool_loop env (turn_llm_api t) (turn_tools t) (CONF_MODEL (settings env))
       MAX_TOOL_ITERATIONS 0 None (messages (turn_history t)) [] = (ex, msgs, sent)"
    using prod_cases3 by blast
  from tool_loop_prefix [OF loop] obtain ext where ext: "msgs = messages (turn_history t) @ ext"
    by blast
  from prepare_turn_state [OF Inr] obtain api mh0 trimmed n where
    st: "turn_id t = turn_conversation_id env inp"
        "resolve_history env api (resolve_user_name env inp) h (turn_id t) = Inr mh0"
        "trim_history mh0 n = Inr trimmed"
        "messages (turn_history t) =
           messages trimmed @ [\<lparr>role = USER, content = Some (user_text inp), tool_calls = None\<rparr>]"
        "turn_store t =
           prune_old_histories (monotonic env 1) (MAX_HISTORY_SECONDS env) (h(turn_id t \<mapsto> mh0))"
    by blast
  have final: "store_view (turn_store t) (turn_id t) (turn_attached t)
                 ((turn_history t)\<lparr>messages := msgs\<rparr>) k = Some mh'"
    using assms Inr loop by (simp add: async_process_def)
  show ?thesis
  proof (cases "k = turn_id t")
    case False
    with final have "turn_store t k = Some mh'" by (simp add: store_view_def split: if_splits)
    with st(5) False have "h k = Some mh'" by (auto dest!: prune_subset split: if_splits)
    then show ?thesis by simp
  next
    case True
    show ?thesis
    proof (cases "turn_attached t")
      case attached: True
      with final True have mh': "mh' = (turn_history t)\<lparr>messages := msgs\<rparr>"
        by (simp add: store_view_def)
      have "\<forall>sys rest. messages mh0 = sys # rest \<longrightarrow> (\<exists>rest'. messages mh' = sys # rest')"
      proof (intro allI impI)
        fix sys rest assume "messages mh0 = sys # rest"
        from trim_history_head [OF st(3) this] obtain r1 where "messages trimmed = sys # r1"
          by blast
        with mh' ext st(4) show "\<exists>rest'. messages mh' = sys # rest'" by simp
      qed
      with True st(1,2) show ?thesis by blast
    next
      case detached: False
      with final True have "turn_store t k = Some mh'" by (simp add: store_view_def)
      with st(5) True have "mh' = mh0" by (auto dest!: prune_subset)
      with True st(1,2) show ?thesis by blast
    qed
  qed
qed

lemma async_process_keeps_system:
  assumes inv: "\<forall>k mh. h k = Some mh \<longrightarrow>
                  (\<exists>p rest. messages mh =
                     \<lparr>role = SYSTEM, content = Some p, tool_calls = None\<rparr> # rest)"
      and "fst (snd (async_process env inp h)) k = Some mh'"
  shows "\<exists>p rest. messages mh' = \<lparr>role = SYSTEM, content = Some p, tool_calls = None\<rparr> # rest"
proof -
  from async_process_store [OF assms(2)] show ?thesis
  proof
    assume "h k = Some mh'" with inv show ?thesis by blast
  next
    assume "k = turn_conversation_id env inp \<and>
          (\<exists>api mh0. resolve_history env api (resolve_user_name env inp) h k = Inr mh0 \<and>
             (\<forall>sys rest. messages mh0 = sys # rest \<longrightarrow>
                (\<exists>rest'. messages mh' = sys # rest')))"
    then obtain api mh0 where
      rh: "resolve_history env api (resolve_user_name env inp) h k = Inr mh0"
      and keep: "\<forall>sys rest. messages mh0 = sys # rest \<longrightarrow>
                   (\<exists>rest'. messages mh' = sys # rest')"
      by blast
    from resolve_history_cases [OF rh] inv
    obtain p rest where
      "messages mh0 = \<lparr>role = SYSTEM, content = Some p, tool_calls = None\<rparr> # rest"
      by force
    with keep show ?thesis by blast
  qed
qed

lemma run_turns_keeps_system:
  assumes "\<forall>k mh. h k = Some mh \<longrightarrow>
             (\<exists>p rest. messages mh =
                \<lparr>role = SYSTEM, content = Some p, tool_calls = None\<rparr> # rest)"
      and "run_turns ts h k = Some mh'"
  shows "\<exists>p rest. messages mh' = \<lparr>role = SYSTEM, content = Some p, tool_calls = None\<rparr> # rest"
  using assms
proof (induction ts arbitrary: h)
  case Nil
  then show ?case by simp
next
  case (Cons a ts)
  obtain env inp where a: "a = (env, inp)" by (cases a)
  have "\<forall>k mh. fst (snd (async_process env inp h)) k = Some mh \<longrightarrow>
          (\<exists>p rest. messages mh =
             \<lparr>role = SYSTEM, content = Some p, tool_calls = None\<rparr> # rest)"
    using async_process_keeps_system [OF Cons.prems(1)] by blast
  from Cons.IH [OF this] Cons.prems(2) a show ?case by simp
qed

lemma async_process_keeps_head:
  assumes "history cid = Some mh0" "messages mh0 = sys # rest0"
      and "fst (snd (async_process env inp history)) cid = Some mh1"
  shows "\<exists>rest1. messages mh1 = sys # rest1"
proof -
  from async_process_store [OF assms(3)] show ?thesis
  proof
    assume "history cid = Some mh1" with assms(1,2) show ?thesis by simp
  next
    assume "cid = turn_conversation_id env inp \<and>
          (\<exists>api mh0. resolve_history env api (resolve_user_name env inp) history cid = Inr mh0 \<and>
             (\<forall>sys rest. messages mh0 = sys # rest \<longrightarrow>
                (\<exists>rest'. messages mh1 = sys # rest')))"
    then obtain api m where
      rh: "resolve_history env api (resolve_user_name env inp) history cid = Inr m"
      and keep: "\<forall>sys rest. messages m = sys # rest \<longrightarrow> (\<exists>rest'. messages mh1 = sys # rest')"
      by blast
    from resolve_history_cases [OF rh] assms(1,2) have "messages m = sys # rest0" by auto
    with keep show ?thesis by blast
  qed
qed

text \<open>
  Claim C8. In every history map reached from the empty map by turns, each stored
  history has a first message, and it is a system-role message holding a prompt. A
  turn never changes the first message of a history that it leaves in the map, and
  neither does trimming; pruning keeps an entry as it is or removes it whole.
\<close>

theorem system_prompt_stays_first:
  "(run_turns ts Map.empty cid = Some mh \<longrightarrow>
      (\<exists>prompt rest.
         messages mh = \<lparr>role = SYSTEM, content = Some prompt, tool_calls = None\<rparr> # rest))
   \<and> (history cid' = Some stored \<and> messages stored = sys # stored_rest \<and>
        fst (snd (async_process env user_input history)) cid' = Some after \<longrightarrow>
      (\<exists>after_rest. messages after = sys # after_rest))
   \<and> (messages before_trim = sys' # trim_rest \<and> trim_history before_trim n = Inr trimmed \<longrightarrow>
      (\<exists>trimmed_rest. messages trimmed = sys' # trimmed_rest))
   \<and> (prune_old_histories now ttl history' cid'' = Some kept \<longrightarrow> history' cid'' = Some kept)"
proof (intro conjI impI)
  assume "run_turns ts Map.empty cid = Some mh"
  with run_turns_keeps_system [of Map.empty ts cid mh]
  show "\<exists>prompt rest.
          messages mh = \<lparr>role = SYSTEM, content = Some prompt, tool_calls = None\<rparr> # rest"
    by simp
next
  assume "history cid' = Some stored \<and> messages stored = sys # stored_rest \<and>
        fst (snd (async_process env user_input history)) cid' = Some after"
  then show "\<exists>after_rest. messages after = sys # after_rest"
    using async_process_keeps_head by blast
next
  assume "messages before_trim = sys' # trim_rest \<and> trim_history before_trim n = Inr trimmed"
  then show "\<exists>trimmed_rest. messages trimmed = sys' # trimmed_rest"
    using trim_history_head by blast
next
  assume "prune_old_histories now ttl history' cid'' = Some kept"
  then show "history' cid'' = Some kept" by (rule prune_subset)
qed

theorem system_prompt_stays_first_witness:
  "run_turns [(example_env, example_input)] Map.empty ''01J0'' = Some example_history_1
   \<and> fst (snd (async_process example_env (example_input\<lparr>conversation_id := Some ''01J0''\<rparr>)
                 [''01J0'' \<mapsto> example_history_1])) ''01J0'' = Some example_history_2
   \<and> trim_history example_history_2 1 = Inr example_history_1
   \<and> prune_old_histories 3700 3600 [''01J0'' \<mapsto> example_history_1] ''01J0''
       = Some example_history_1
   \<and> (\<exists>prompt rest. messages example_history_1 =
         \<lparr>role = SYSTEM, content = Some prompt, tool_calls = None\<rparr> # rest)
   \<and> (\<exists>after_rest. messages example_history_2 = example_system # after_rest)"
proof -
  have a: "run_turns [(example_env, example_input)] Map.empty ''01J0'' = Some example_history_1"
    by (simp add: turn_defs example_defs eval_nat_numeral)
  have b: "fst (snd (async_process example_env (example_input\<lparr>conversation_id := Some ''01J0''\<rparr>)
                 [''01J0'' \<mapsto> example_history_1])) ''01J0'' = Some example_history_2"
    by (simp add: turn_defs example_defs eval_nat_numeral)
  have c: "trim_history example_history_2 1 = Inr example_history_1"
    by (simp add: turn_defs example_defs)
  have d: "prune_old_histories 3700 3600 [''01J0'' \<mapsto> example_history_1] ''01J0''
             = Some example_history_1"
    by (simp add: turn_defs example_defs)
  have e: "[''01J0'' \<mapsto> example_history_1] ''01J0'' = Some example_history_1" by simp
  have f: "messages example_history_1 = example_system # [example_user, example_assistant]"
    by (simp add: example_history_1_def)
  have g: "messages example_history_2 =
             example_system # [example_user, example_assistant, example_user, example_assistant]"
    by (simp add: example_history_2_def)
  from system_prompt_stays_first
         [where ts = "[(example_env, example_input)]" and cid = "''01J0''"
            and mh = example_history_1
            and history = "[''01J0'' \<mapsto> example_history_1]" and cid' = "''01J0''"
            and stored = example_history_1 and sys = example_system
            and stored_rest = "[example_user, example_assistant]"
            and env = example_env
            and user_input = "example_input\<lparr>conversation_id := Some ''01J0''\<rparr>"
            and after = example_history_2
            and before_trim = example_history_2 and sys' = example_system
            and trim_rest = "[example_user, example_assistant, example_user, example_assistant]"
            and n = 1 and trimmed = example_history_1
            and now = 3700 and ttl = 3600
            and history' = "[''01J0'' \<mapsto> example_history_1]" and cid'' = "''01J0''"
            and kept = example_history_1]
       a b c d e f g
  show ?thesis by blast
qed

text \<open>
  Claim C9. When a tool registry is absent or acquired, the conversation id of the
  turn has no history, and rendering the prompt fails with a template error, the turn
  returns an error response that carries that conversation id, the history map is the
  one the turn started with, and no request goes to the model server. The id is the
  one the caller gave, when the caller gave a non-empty one, and the freshly generated
  id otherwise.
\<close>

theorem render_failure_stores_nothing:
  assumes "resolve_api env = Inr (llm_api, tool_specs)"
      and "async_render env
             (BASE_PROMPT env @ (case CONF_PROMPT (settings env) of
                                   None \<Rightarrow> DEFAULT_INSTRUCTIONS_PROMPT env | Some p \<Rightarrow> p))
             (resolve_user_name env user_input) = Inl err"
      and "isinstance err TemplateError"
  shows "(conversation_id user_input = Some c \<and> c \<noteq> [] \<and> history c = None \<longrightarrow>
            async_process env user_input history =
              (Inr \<lparr>response = Error UNKNOWN
                       (''Sorry, I had a problem generating my prompt: '' @ exc_str err),
                    result_conversation_id = Some c\<rparr>,
               history, []))
       \<and> ((conversation_id user_input = None \<or> conversation_id user_input = Some []) \<and>
          history (ulid_now env) = None \<longrightarrow>
            async_process env user_input history =
              (Inr \<lparr>response = Error UNKNOWN
                       (''Sorry, I had a problem generating my prompt: '' @ exc_str err),
                    result_conversation_id = Some (ulid_now env)\<rparr>,
               history, []))"
  using assms
  by (auto simp: async_process_def prepare_turn_def resolve_history_def
                 turn_conversation_id_def Let_def)

theorem render_failure_stores_nothing_witness:
  "resolve_api example_env_render_fails = Inr (None, None)
   \<and> isinstance example_template_error TemplateError
   \<and> conversation_id (example_input\<lparr>conversation_id := Some ''kitchen''\<rparr>) = Some ''kitchen''
   \<and> [''01J0'' \<mapsto> example_history_1] ''kitchen'' = None
   \<and> async_process example_env_render_fails
         (example_input\<lparr>conversation_id := Some ''kitchen''\<rparr>)
         [''01J0'' \<mapsto> example_history_1] =
       (Inr \<lparr>response = Error UNKNOWN
                ''Sorry, I had a problem generating my prompt: bad template'',
             result_conversation_id = Some ''kitchen''\<rparr>,
        [''01J0'' \<mapsto> example_history_1], [])
   \<and> conversation_id example_input = None
   \<and> ulid_now example_env_render_fails = ''01J0''
   \<and> async_process example_env_render_fails example_input Map.empty =
       (Inr \<lparr>response = Error UNKNOWN
                ''Sorry, I had a problem generating my prompt: bad template'',
             result_conversation_id = Some ''01J0''\<rparr>,
        Map.empty, [])"
proof -
  let ?given = "example_input\<lparr>conversation_id := Some ''kitchen''\<rparr>"
  have a: "resolve_api example_env_render_fails = Inr (None, None)"
    by (simp add: resolve_api_def example_defs)
  have b: "async_render example_env_render_fails
             (BASE_PROMPT example_env_render_fails @
              (case CONF_PROMPT (settings example_env_render_fails) of
                 None \<Rightarrow> DEFAULT_INSTRUCTIONS_PROMPT example_env_render_fails | Some p \<Rightarrow> p))
             (resolve_user_name example_env_render_fails ?given)
           = Inl example_template_error"
    by (simp add: example_defs)
  have c: "async_render example_env_render_fails
             (BASE_PROMPT example_env_render_fails @
              (case CONF_PROMPT (settings example_env_render_fails) of
                 None \<Rightarrow> DEFAULT_INSTRUCTIONS_PROMPT example_env_render_fails | Some p \<Rightarrow> p))
             (resolve_user_name example_env_render_fails example_input)
           = Inl example_template_error"
    by (simp add: example_defs)
  have d: "isinstance example_template_error TemplateError"
    by (simp add: isinstance_def example_defs)
  have e: "conversation_id ?given = Some ''kitchen''"
          "[''01J0'' \<mapsto> example_history_1] ''kitchen'' = None"
          "conversation_id example_input = None"
          "ulid_now example_env_render_fails = ''01J0''"
    by (simp_all add: example_defs)
  from render_failure_stores_nothing
         [OF a b d, where c = "''kitchen''" and history = "[''01J0'' \<mapsto> example_history_1]"]
       e
  have r1: "async_process example_env_render_fails ?given [''01J0'' \<mapsto> example_history_1] =
       (Inr \<lparr>response = Error UNKNOWN
                (''Sorry, I had a problem generating my prompt: '' @
                 exc_str example_template_error),
             result_conversation_id = Some ''kitchen''\<rparr>,
        [''01J0'' \<mapsto> example_history_1], [])"
    by simp
  from render_failure_stores_nothing [OF a c d, where history = Map.empty] e
  have r2: "async_process example_env_render_fails example_input Map.empty =
       (Inr \<lparr>response = Error UNKNOWN
                (''Sorry, I had a problem generating my prompt: '' @
                 exc_str example_template_error),
             result_conversation_id = Some ''01J0''\<rparr>,
        Map.empty, [])"
    by simp
  from r1 r2 a d e show ?thesis
    by (simp add: example_template_error_def)
qed

text \<open>
  When a tool registry is in use and every reply of the model server asks for tools
  and has no \<open>content\<close> key, the turn makes \<open>MAX_TOOL_ITERATIONS\<close> requests and
  then raises KeyError.
\<close>

lemma cap_without_content:
  assumes prep: "prepare_turn env user_input history = Inr t"
      and api: "turn_llm_api t = Some api"
      and replies: "\<forall>i ms. \<exists>rm tcs.
                      chat env i (CONF_MODEL (settings env)) ms (turn_tools t) = Inr rm \<and>
                      content rm = None \<and> tool_calls rm = Some tcs \<and> tcs \<noteq> [] \<and>
                      (\<forall>k < length tcs. tool_outcome_ok api i k (tcs ! k))"
  shows "fst (async_process env user_input history) = Inl (KeyError ''content'') \<and>
         length (snd (snd (async_process env user_input history))) = MAX_TOOL_ITERATIONS"
proof -
  let ?model = "CONF_MODEL (settings env)"
  have r: "\<And>i ms. \<exists>rm tcs. chat env i ?model ms (turn_tools t) = Inr rm \<and>
                      tool_calls rm = Some tcs \<and> tcs \<noteq> [] \<and>
                      (\<forall>k < length tcs. tool_outcome_ok api i k (tcs ! k))"
    using replies by blast
  from tool_loop_runs_all_iterations
         [of env ?model "turn_tools t" api MAX_TOOL_ITERATIONS 0 None
             "messages (turn_history t)" "[]", OF r]
  obtain fin msgs' sent' where
    loop: "tool_loop env (Some api) (turn_tools t) ?model MAX_TOOL_ITERATIONS 0 None
             (messages (turn_history t)) [] = (Finished fin, msgs', sent')"
    and len: "length sent' = MAX_TOOL_ITERATIONS"
    and fin: "0 < MAX_TOOL_ITERATIONS \<longrightarrow>
                (\<exists>rm. fin = Some rm \<and>
                   chat env (0 + MAX_TOOL_ITERATIONS - 1) ?model (last sent') (turn_tools t)
                     = Inr rm)"
    by auto
  from fin obtain rm where rm: "fin = Some rm"
    "chat env (0 + MAX_TOOL_ITERATIONS - 1) ?model (last sent') (turn_tools t) = Inr rm"
    by (auto simp: MAX_TOOL_ITERATIONS_def)
  from replies obtain rm' where
    "chat env (0 + MAX_TOOL_ITERATIONS - 1) ?model (last sent') (turn_tools t) = Inr rm'"
    "content rm' = None" by blast
  with rm(2) have "content rm = None" by simp
  with prep api loop len rm(1) show ?thesis
    by (simp add: async_process_def finish_turn_def)
qed

text \<open>
  Claim C5. When the loop of a turn is left, by \<open>break\<close> or at the iteration cap,
  with a last reply that has no \<open>content\<close> key, the turn raises KeyError at
  line 288 and returns no result. In particular this is so at the iteration cap, when
  every reply asks for tools and none has content: the turn raises after its tenth
  request.
\<close>

theorem missing_content_raises_KeyError:
  "(prepare_turn env user_input history = Inr t \<and>
    tool_loop env (turn_llm_api t) (turn_tools t) (CONF_MODEL (settings env))
      MAX_TOOL_ITERATIONS 0 None (messages (turn_history t)) [] =
      (Finished (Some response_message), msgs, sent) \<and>
    content response_message = None \<longrightarrow>
      fst (async_process env user_input history) = Inl (KeyError ''content''))
   \<and> (prepare_turn env user_input history = Inr t \<and> turn_llm_api t = Some api \<and>
       (\<forall>i ms. \<exists>rm tcs. chat env i (CONF_MODEL (settings env)) ms (turn_tools t) = Inr rm \<and>
                  content rm = None \<and> tool_calls rm = Some tcs \<and> tcs \<noteq> [] \<and>
                  (\<forall>k < length tcs. tool_outcome_ok api i k (tcs ! k))) \<longrightarrow>
      fst (async_process env user_input history) = Inl (KeyError ''content'') \<and>
      length (snd (snd (async_process env user_input history))) = MAX_TOOL_ITERATIONS)"
proof (rule conjI)
  show "prepare_turn env user_input history = Inr t \<and>
    tool_loop env (turn_llm_api t) (turn_tools t) (CONF_MODEL (settings env))
      MAX_TOOL_ITERATIONS 0 None (messages (turn_history t)) [] =
      (Finished (Some response_message), msgs, sent) \<and>
    content response_message = None \<longrightarrow>
      fst (async_process env user_input history) = Inl (KeyError ''content'')"
    by (simp add: async_process_def finish_turn_def)
next
  show "prepare_turn env user_input history = Inr t \<and> turn_llm_api t = Some api \<and>
       (\<forall>i ms. \<exists>rm tcs. chat env i (CONF_MODEL (settings env)) ms (turn_tools t) = Inr rm \<and>
                  content rm = None \<and> tool_calls rm = Some tcs \<and> tcs \<noteq> [] \<and>
                  (\<forall>k < length tcs. tool_outcome_ok api i k (tcs ! k))) \<longrightarrow>
      fst (async_process env user_input history) = Inl (KeyError ''content'') \<and>
      length (snd (snd (async_process env user_input history))) = MAX_TOOL_ITERATIONS"
    using cap_without_content [of env user_input history t api] by blast
qed

theorem missing_content_raises_KeyError_witness:
  "chat example_env_no_content 0 ''llama3'' [example_system, example_user] None
     = Inr \<lparr>role = ''assistant'', content = None, tool_calls = None\<rparr>
   \<and> fst (async_process example_env_no_content example_input Map.empty)
     = Inl (KeyError ''content'')
   \<and> chat example_env_tools 9 ''llama3'' [] None = Inr example_tool_reply
   \<and> content example_tool_reply = None
   \<and> fst (async_process example_env_tools example_input Map.empty)
     = Inl (KeyError ''content'')
   \<and> length (snd (snd (async_process example_env_tools example_input Map.empty))) = 10"
proof -
  let ?t = "projr (prepare_turn example_env_no_content example_input Map.empty)"
  let ?u = "projr (prepare_turn example_env_tools example_input Map.empty)"
  let ?reply = "\<lparr>role = ''assistant'', content = None, tool_calls = None\<rparr>"
  have a: "prepare_turn example_env_no_content example_input Map.empty = Inr ?t"
    by (simp add: turn_defs example_defs)
  have b: "tool_loop example_env_no_content (turn_llm_api ?t) (turn_tools ?t)
             (CONF_MODEL (settings example_env_no_content))
             MAX_TOOL_ITERATIONS 0 None (messages (turn_history ?t)) [] =
           (Finished (Some ?reply),
            [example_system, example_user, ?reply],
            [[example_system, example_user]])"
    by (simp add: turn_defs example_defs eval_nat_numeral)
  have c: "content ?reply = None" by simp
  have d: "chat example_env_no_content 0 ''llama3'' [example_system, example_user] None
             = Inr ?reply"
    by (simp add: example_defs)
  have e: "prepare_turn example_env_tools example_input Map.empty = Inr ?u"
    by (simp add: turn_defs example_defs)
  have f: "turn_llm_api ?u = Some example_api"
    by (simp add: turn_defs example_defs)
  have g: "\<forall>i ms. \<exists>rm tcs.
             chat example_env_tools i (CONF_MODEL (settings example_env_tools)) ms (turn_tools ?u)
               = Inr rm \<and>
             content rm = None \<and> tool_calls rm = Some tcs \<and> tcs \<noteq> [] \<and>
             (\<forall>k < length tcs. tool_outcome_ok example_api i k (tcs ! k))"
    by (simp add: tool_outcome_ok_def isinstance_def example_defs)
  have h: "chat example_env_tools 9 ''llama3'' [] None = Inr example_tool_reply
           \<and> content example_tool_reply = None"
    by (simp add: example_defs)
  from missing_content_raises_KeyError
         [where env = example_env_no_content and user_input = example_input
            and history = Map.empty and t = ?t and response_message = ?reply
            and msgs = "[example_system, example_user, ?reply]"
            and sent = "[[example_system, example_user]]"]
       a b c
  have r1: "fst (async_process example_env_no_content example_input Map.empty)
              = Inl (KeyError ''content'')" by blast
  from missing_content_raises_KeyError
         [where env = example_env_tools and user_input = example_input
            and history = Map.empty and t = ?u and api = example_api]
       e f g
  have r2: "fst (async_process example_env_tools example_input Map.empty)
              = Inl (KeyError ''content'') \<and>
            length (snd (snd (async_process example_env_tools example_input Map.empty)))
              = MAX_TOOL_ITERATIONS" by blast
  from r1 r2 d h show ?thesis by (simp add: MAX_TOOL_ITERATIONS_def)
qed


text \<open>
  When the request to the model server fails with a transport error, the error
  response carries the conversation id of the turn.
\<close>

lemma transport_failure_keeps_conversation_id:
  assumes "prepare_turn env user_input history = Inr t"
      and "tool_loop env (turn_llm_api t) (turn_tools t) (CONF_MODEL (settings env))
             MAX_TOOL_ITERATIONS 0 None (messages (turn_history t)) [] =
           (ChatFailed err, msgs, sent)"
  shows "fst (async_process env user_input history) =
           Inr \<lparr>response = Error UNKNOWN
                   (''Sorry, I had a problem talking to the Ollama server: '' @ exc_str err),
                result_conversation_id = Some (turn_conversation_id env user_input)\<rparr>"
  using assms prepare_turn_state [OF assms(1)]
  by (simp add: async_process_def finish_turn_def)

text \<open>
  When the acquisition of the tool registry fails with a host error, the error
  response carries the conversation id of the input as it was given.
\<close>

lemma api_failure_returns_caller_id:
  assumes "resolve_api env = Inl err" "isinstance err HomeAssistantError"
  shows "async_process env user_input history =
           (Inr \<lparr>response = Error UNKNOWN (''Error preparing LLM API: '' @ exc_str err),
                 result_conversation_id = conversation_id user_input\<rparr>,
            history, [])"
  using assms by (simp add: async_process_def prepare_turn_def Let_def)

text \<open>
  Claim C1 does not hold of the code. The handler of a failed acquisition of the tool
  registry (lines 130-138) returns \<open>user_input.conversation_id\<close>, while the handlers
  of a failed rendering and of a failed request return \<open>conversation_id\<close>, the id of
  line 107. For a caller that gave no id, the response of the first handler carries no
  id, although the turn has generated one.
\<close>

theorem api_failure_returns_no_conversation_id:
  "conversation_id example_input = None
   \<and> turn_conversation_id example_env_api_fails example_input = ''01J0''
   \<and> fst (async_process example_env_api_fails example_input Map.empty) =
       Inr \<lparr>response = Error UNKNOWN ''Error preparing LLM API: API not found'',
            result_conversation_id = None\<rparr>"
  by (simp add: turn_defs example_defs)

text \<open>
  Claim C4 does not hold of the code. With a tool registry and a model server that
  answers every request with tool calls and no \<open>content\<close> key, the turn makes
  ten requests and then raises KeyError at line 288 instead of ending without error:
  \<open>message_convert\<close> reads the key with \<open>get\<close>, the final step reads it with a
  subscript.
\<close>

theorem iteration_cap_without_content_raises:
  "length (snd (snd (async_process example_env_tools example_input Map.empty))) = 10
   \<and> fst (async_process example_env_tools example_input Map.empty) = Inl (KeyError ''content'')"
  by (simp add: turn_defs example_defs eval_nat_numeral)

end
